theory Spec2Isabelle
  imports Main "HOL-Library.Word"
begin

unbundle bit_operations_syntax

section \<open>Python values, exceptions and effects\<close>

text \<open>
  The module \<^verbatim>\<open>pydoop/hdfs/core/bridged/hadoop.py\<close> is Python 2 code that drives Java
  objects of the Hadoop client library through a bridge. The Python side is embedded
  here function by function. The Java side is opaque to the module: it is taken as a
  parameter, a record of the Java methods the module calls, each acting on a world
  state \<open>'s\<close> and either throwing (with a message) or returning a value.

  The exceptions the module raises or lets through. \<^verbatim>\<open>raise IOError\<close> without an
  argument is \<open>IOError []\<close>. A Java exception crossing the bridge is \<open>JavaException\<close>.
\<close>

datatype py_error =
    IOError string
  | ValueError string
  | Exception string
  | JavaException string

text \<open>\<^verbatim>\<open>e.message\<close> of a caught exception.\<close>

fun message :: "py_error \<Rightarrow> string" where
  "message (IOError m) = m"
| "message (ValueError m) = m"
| "message (Exception m) = m"
| "message (JavaException m) = m"

text \<open>
  A Python computation over the world \<open>'s\<close>: it raises or returns, and leaves a world
  behind either way (a backend call that was made stays made when a later one throws).
  A Java call has the same shape with the thrown message on the left.
\<close>

type_synonym ('s, 'a) py = "'s \<Rightarrow> (py_error + 'a) \<times> 's"
type_synonym ('s, 'a) java = "'s \<Rightarrow> (string + 'a) \<times> 's"

definition py_return :: "'a \<Rightarrow> ('s, 'a) py" where
  "py_return x s = (Inr x, s)"

definition py_raise :: "py_error \<Rightarrow> ('s, 'a) py" where
  "py_raise e s = (Inl e, s)"

text \<open>Sequencing: the statements after a call run only if the call returned.\<close>

definition py_bind :: "('s, 'a) py \<Rightarrow> ('a \<Rightarrow> ('s, 'b) py) \<Rightarrow> ('s, 'b) py" where
  "py_bind m f s = (case m s of (Inl e, s') \<Rightarrow> (Inl e, s') | (Inr x, s') \<Rightarrow> f x s')"

text \<open>\<^verbatim>\<open>try: m  except Exception, e: h(e)\<close>.\<close>

definition py_try :: "('s, 'a) py \<Rightarrow> (py_error \<Rightarrow> ('s, 'a) py) \<Rightarrow> ('s, 'a) py" where
  "py_try m h s = (case m s of (Inl e, s') \<Rightarrow> h e s' | (Inr x, s') \<Rightarrow> (Inr x, s'))"

text \<open>A call of a Java method from Python: what it throws arrives as a Python exception.\<close>

definition jcall :: "('s, 'a) java \<Rightarrow> ('s, 'a) py" where
  "jcall m s = (case m s of (Inl msg, s') \<Rightarrow> (Inl (JavaException msg), s') | (Inr x, s') \<Rightarrow> (Inr x, s'))"

text \<open>
  The handler of every \<^verbatim>\<open>try\<close> of the file handle:
  \<^verbatim>\<open>except Exception, e: raise IOError(e.message)\<close>.
\<close>

definition reraise_IOError :: "py_error \<Rightarrow> ('s, 'a) py" where
  "reraise_IOError e = py_raise (IOError (message e))"

section \<open>Java values\<close>

text \<open>
  A Java \<^verbatim>\<open>byte\<close> is a signed 8-bit integer; Python reads an element of a Java
  \<^verbatim>\<open>byte[]\<close> as the signed value \<open>sint\<close>.

  Java objects are references handed out by the backend. The one object the module
  builds itself around another is the \<^verbatim>\<open>java.io.BufferedOutputStream\<close> of the file
  handle's constructor, kept here as a constructor around the wrapped reference
  (which is Python's \<^verbatim>\<open>None\<close> when the handle has no stream).
\<close>

type_synonym jbyte = "8 word"

datatype jobject =
    JObject nat
  | BufferedOutputStream "jobject option"

text \<open>
  \<^verbatim>\<open>ByteBuffer.allocate(length).array()\<close>: a zero-filled array of \<open>length\<close> bytes;
  a negative capacity throws \<^verbatim>\<open>IllegalArgumentException\<close>.
\<close>

definition ByteBuffer_allocate :: "int \<Rightarrow> ('s, jbyte list) java" where
  "ByteBuffer_allocate n s =
     (if n < 0 then (Inl ''IllegalArgumentException'', s)
      else (Inr (replicate (nat n) 0), s))"

text \<open>
  The stream methods the file handle calls, each on a receiver object. A read is handed
  the array and answers the count together with the array as the call leaves it.
\<close>

record 's stream_backend =
  stream_close :: "jobject \<Rightarrow> ('s, unit) java"
  stream_write :: "jobject \<Rightarrow> jbyte list \<Rightarrow> ('s, unit) java"
  stream_getPos :: "jobject \<Rightarrow> ('s, int) java"
  stream_seek :: "jobject \<Rightarrow> int \<Rightarrow> ('s, unit) java"
  stream_read :: "jobject \<Rightarrow> jbyte list \<Rightarrow> ('s, int \<times> jbyte list) java"
  stream_pread :: "jobject \<Rightarrow> int \<Rightarrow> jbyte list \<Rightarrow> int \<Rightarrow> int \<Rightarrow> ('s, int \<times> jbyte list) java"
  stream_flush :: "jobject \<Rightarrow> ('s, unit) java"

section \<open>Byte marshalling\<close>

text \<open>Python 2 \<^verbatim>\<open>chr(i)\<close>: the one-byte string of code \<open>i\<close>, ValueError outside 0..255.\<close>

definition py_chr :: "int \<Rightarrow> py_error + char" where
  "py_chr i =
     (if 0 \<le> i \<and> i < 256 then Inr (char_of i)
      else Inl (ValueError ''chr() arg not in range(256)''))"

text \<open>\<^verbatim>\<open>''.join(map(lambda x: chr((x+256)%256), xs))\<close>\<close>

fun join_map_chr :: "int list \<Rightarrow> py_error + string" where
  "join_map_chr [] = Inr []"
| "join_map_chr (x # xs) =
     (case py_chr ((x + 256) mod 256) of
        Inl e \<Rightarrow> Inl e
      | Inr c \<Rightarrow> (case join_map_chr xs of Inl e \<Rightarrow> Inl e | Inr cs \<Rightarrow> Inr (c # cs)))"

text \<open>
  The Python slice \<^verbatim>\<open>buf[:n]\<close>: the first \<open>n\<close> elements, and for a negative \<open>n\<close> all
  but the last \<open>-n\<close>.
\<close>

definition py_slice_to :: "'a list \<Rightarrow> int \<Rightarrow> 'a list" where
  "py_slice_to xs n = (if n < 0 then take (nat (int (length xs) + n)) xs else take (nat n) xs)"

text \<open>\<^verbatim>\<open>''.join(map(lambda x: chr((x+256)%256), buf[:read]))\<close> as a computation.\<close>

definition marshal :: "jbyte list \<Rightarrow> int \<Rightarrow> ('s, string) py" where
  "marshal buf n s = (join_map_chr (map sint (py_slice_to buf n)), s)"

text \<open>\<^verbatim>\<open>wrap_array("byte")(data)\<close>: the Java byte array of a Python byte string.\<close>

definition jbytearray :: "string \<Rightarrow> jbyte list" where
  "jbytearray data = map (\<lambda>c. of_char c) data"

section \<open>The file handle\<close>

text \<open>
  \<^verbatim>\<open>class CoreHdfsFile\<close>. Its attributes \<^verbatim>\<open>_mode\<close>, \<^verbatim>\<open>_stream\<close>, \<^verbatim>\<open>_stream_type\<close> and
  \<^verbatim>\<open>_buffered_stream\<close> are the fields below (an identifier cannot start with an
  underscore here). \<open>None\<close> in \<open>file_buffered_stream\<close> is the attribute not being set.
\<close>

record CoreHdfsFile =
  file_mode :: int
  file_stream :: "jobject option"
  file_stream_type :: int
  file_buffered_stream :: "jobject option"

definition INPUT :: int where "INPUT = 0"
definition OUTPUT :: int where "OUTPUT = 1"

text \<open>\<^verbatim>\<open>CoreHdfsFile.__init__(self, mode, stream, stream_type=_INPUT)\<close>\<close>

definition CoreHdfsFile_init :: "int \<Rightarrow> jobject option \<Rightarrow> int \<Rightarrow> CoreHdfsFile" where
  "CoreHdfsFile_init mode stream stream_type =
     \<lparr> file_mode = mode, file_stream = stream, file_stream_type = stream_type,
       file_buffered_stream =
         (if stream_type = OUTPUT then Some (BufferedOutputStream stream) else None) \<rparr>"

text \<open>
  A chunk: the caller's mutable buffer. The module uses \<^verbatim>\<open>len(chunk)\<close> and reads and
  assigns \<^verbatim>\<open>chunk.value\<close>; a method that assigns returns the chunk as it leaves it.
\<close>

record chunk =
  chunk_len :: nat
  chunk_value :: string

text \<open>What \<^verbatim>\<open>read_chunk\<close> and \<^verbatim>\<open>pread_chunk\<close> return: a string or an integer.\<close>

datatype pyval = PyStr string | PyInt int

text \<open>\<^verbatim>\<open>not self._stream or self._stream_type != self._INPUT\<close>\<close>

definition not_input :: "CoreHdfsFile \<Rightarrow> bool" where
  "not_input h \<longleftrightarrow> file_stream h = None \<or> file_stream_type h \<noteq> INPUT"

definition not_output :: "CoreHdfsFile \<Rightarrow> bool" where
  "not_output h \<longleftrightarrow> file_stream h = None \<or> file_stream_type h \<noteq> OUTPUT"

text \<open>
  \<^verbatim>\<open>close\<close>. No attribute of the handle is assigned; the handle is returned beside the
  result so that what a caller holds after the call can be stated.
\<close>

definition close :: "'s stream_backend \<Rightarrow> CoreHdfsFile \<Rightarrow> ('s, CoreHdfsFile) py" where
  "close b h =
     (if file_stream h = None then py_raise (IOError [])
      else py_try
             (py_bind (jcall (stream_close b (the (file_stream h)))) (\<lambda>_. py_return h))
             reraise_IOError)"

text \<open>\<^verbatim>\<open>_write(self, data, length)\<close>\<close>

definition write_prim :: "'s stream_backend \<Rightarrow> CoreHdfsFile \<Rightarrow> string \<Rightarrow> int \<Rightarrow> ('s, int) py" where
  "write_prim b h data len =
     (if not_output h then py_raise (IOError [])
      else if len < 0 then py_raise (IOError [])
      else if len > 0 then
        py_bind (jcall (stream_write b (the (file_stream h)) (jbytearray data)))
          (\<lambda>_. py_return len)
      else py_return len)"

definition write_chunk :: "'s stream_backend \<Rightarrow> CoreHdfsFile \<Rightarrow> chunk \<Rightarrow> ('s, int) py" where
  "write_chunk b h c = write_prim b h (chunk_value c) (int (length (chunk_value c)))"

text \<open>\<^verbatim>\<open>write(self, data)\<close> (\<open>write\<close> itself is a reserved word here).\<close>

definition write_data :: "'s stream_backend \<Rightarrow> CoreHdfsFile \<Rightarrow> string \<Rightarrow> ('s, int) py" where
  "write_data b h data = write_prim b h data (int (length data))"

definition tell :: "'s stream_backend \<Rightarrow> CoreHdfsFile \<Rightarrow> ('s, int) py" where
  "tell b h =
     (if file_stream h = None then py_raise (IOError [])
      else jcall (stream_getPos b (the (file_stream h))))"

definition seek :: "'s stream_backend \<Rightarrow> CoreHdfsFile \<Rightarrow> int \<Rightarrow> ('s, unit) py" where
  "seek b h position =
     (if not_input h then py_raise (IOError [])
      else jcall (stream_seek b (the (file_stream h)) position))"

text \<open>\<^verbatim>\<open>read(self, length=-1)\<close>; \<open>bufsize\<close> is the imported constant \<^verbatim>\<open>BUFSIZE\<close>.\<close>

definition read :: "'s stream_backend \<Rightarrow> int \<Rightarrow> CoreHdfsFile \<Rightarrow> int \<Rightarrow> ('s, string) py" where
  "read b bufsize h len =
     (if not_input h then py_raise (IOError [])
      else py_try
        (let len = (if len = - 1 then bufsize else len) in
         py_bind (jcall (ByteBuffer_allocate len)) (\<lambda>buf.
         py_bind (jcall (stream_read b (the (file_stream h)) buf)) (\<lambda>(n, buf).
           if n = - 1 then py_return []
           else marshal buf n)))
        reraise_IOError)"

definition read_chunk ::
  "'s stream_backend \<Rightarrow> CoreHdfsFile \<Rightarrow> chunk \<Rightarrow> ('s, pyval \<times> chunk) py" where
  "read_chunk b h c =
     (if not_input h then py_raise (IOError [])
      else py_try
        (let len = int (chunk_len c) in
         py_bind (jcall (ByteBuffer_allocate len)) (\<lambda>buf.
         py_bind (jcall (stream_read b (the (file_stream h)) buf)) (\<lambda>(n, buf).
           if n = - 1 then py_return (PyStr [], c)
           else py_bind (marshal buf n) (\<lambda>v.
                py_return (PyInt n, c\<lparr>chunk_value := v\<rparr>)))))
        reraise_IOError)"

definition pread :: "'s stream_backend \<Rightarrow> int \<Rightarrow> CoreHdfsFile \<Rightarrow> int \<Rightarrow> int \<Rightarrow> ('s, string) py" where
  "pread b bufsize h position len =
     (if not_input h then py_raise (IOError [])
      else py_try
        (let len = (if len = - 1 then bufsize else len) in
         py_bind (jcall (ByteBuffer_allocate len)) (\<lambda>buf.
         py_bind (jcall (stream_pread b (the (file_stream h)) position buf 0 len)) (\<lambda>(n, buf).
           marshal buf n)))
        reraise_IOError)"

definition pread_chunk ::
  "'s stream_backend \<Rightarrow> CoreHdfsFile \<Rightarrow> int \<Rightarrow> chunk \<Rightarrow> ('s, pyval \<times> chunk) py" where
  "pread_chunk b h position c =
     (if not_input h then py_raise (IOError [])
      else py_try
        (let len = int (chunk_len c) in
         py_bind (jcall (ByteBuffer_allocate len)) (\<lambda>buf.
         py_bind (jcall (stream_pread b (the (file_stream h)) position buf 0 len)) (\<lambda>(n, buf).
         py_bind (marshal buf n) (\<lambda>v.
           py_return (PyInt n, c\<lparr>chunk_value := v\<rparr>)))))
        reraise_IOError)"

definition flush :: "'s stream_backend \<Rightarrow> CoreHdfsFile \<Rightarrow> ('s, unit) py" where
  "flush b h =
     (if not_output h then py_raise (IOError [])
      else jcall (stream_flush b (the (file_stream h))))"

section \<open>The filesystem handle\<close>

text \<open>
  Python's \<^verbatim>\<open>"%s" % n\<close> for an integer: its decimal digits, with a minus sign when
  negative.
\<close>

definition digit_char :: "nat \<Rightarrow> char" where
  "digit_char d = ''0123456789'' ! d"

fun digits :: "nat \<Rightarrow> string" where
  "digits n = (if n < 10 then [digit_char n] else digits (n div 10) @ [digit_char (n mod 10)])"

declare digits.simps [simp del]

definition str_int :: "int \<Rightarrow> string" where
  "str_int i = (if i < 0 then CHR ''-'' # digits (nat (- i)) else digits (nat i))"

text \<open>
  The constants of the \<^verbatim>\<open>os\<close> module that \<^verbatim>\<open>open_file\<close> uses, with their Linux values.
\<close>

definition O_RDONLY :: int where "O_RDONLY = 0"
definition O_WRONLY :: int where "O_WRONLY = 1"
definition O_RDWR :: int where "O_RDWR = 2"
definition O_CREAT :: int where "O_CREAT = 64"
definition O_EXCL :: int where "O_EXCL = 128"
definition O_APPEND :: int where "O_APPEND = 1024"

definition BUFFER_SIZE_CONFIG_PROPERTY :: string where
  "BUFFER_SIZE_CONFIG_PROPERTY = ''io.file.buffer.size''"
definition REPLICATION_CONFIG_PROPERTY :: string where
  "REPLICATION_CONFIG_PROPERTY = ''dfs.replication''"
definition BLOCKSIZE_CONFIG_PROPERTY :: string where
  "BLOCKSIZE_CONFIG_PROPERTY = ''dfs.blocksize''"

text \<open>
  A Java \<^verbatim>\<open>long\<close> is a signed 64-bit integer, an \<^verbatim>\<open>int\<close> a signed 32-bit one. Python holds
  either as its own unbounded integer. \<^verbatim>\<open>Long.valueOf(x)\<close> boxes the \<^verbatim>\<open>long\<close> of a Python
  integer, and \<^verbatim>\<open>Long.intValue()\<close> is Java's narrowing conversion of the boxed value to
  \<^verbatim>\<open>int\<close>: its low 32 bits, read as a signed number.
\<close>

type_synonym jlong = "64 word"

definition Long_valueOf :: "int \<Rightarrow> jlong" where
  "Long_valueOf x = word_of_int x"

definition Long_intValue :: "jlong \<Rightarrow> int" where
  "Long_intValue w = sint (ucast w :: 32 word)"

text \<open>
  \<^verbatim>\<open>org.apache.hadoop.fs.Path\<close> objects are built from a string; a
  \<^verbatim>\<open>FileStatus\<close> is the record of what its getters return.
\<close>

datatype jpath = Path string

record jstatus =
  getPath :: jpath
  getGroup :: string
  getOwner :: string
  getModificationTime :: jlong
  getAccessTime :: jlong
  getReplication :: int
  getPermission_toShort :: int
  getLen :: int

text \<open>
  The Java methods the filesystem handle calls: the static methods of \<^verbatim>\<open>FileSystem\<close> and
  \<^verbatim>\<open>URI\<close>, the constructor and \<^verbatim>\<open>getInt\<close> of \<^verbatim>\<open>Configuration\<close>, the methods of the
  connected \<^verbatim>\<open>FileSystem\<close> object (the receiver comes first), and the getters of
  \<^verbatim>\<open>Path\<close>, which touch no state. \<open>FileSystem_get\<close> stands for both overloads,
  \<^verbatim>\<open>get(uri, conf)\<close> and \<^verbatim>\<open>get(uri, conf, user)\<close>.
\<close>

record 's fs_backend =
  new_Configuration :: "bool \<Rightarrow> ('s, jobject) java"
  FileSystem_getLocal :: "jobject \<Rightarrow> ('s, jobject) java"
  FileSystem_getDefaultUri :: "jobject \<Rightarrow> ('s, jobject) java"
  FileSystem_get :: "jobject \<Rightarrow> jobject \<Rightarrow> string option \<Rightarrow> ('s, jobject) java"
  URI_create :: "string \<Rightarrow> ('s, jobject) java"
  Configuration_getInt :: "jobject \<Rightarrow> string \<Rightarrow> int \<Rightarrow> ('s, int) java"
  FileSystem_getFileStatus :: "jobject \<Rightarrow> jpath \<Rightarrow> ('s, jstatus) java"
  FileSystem_isDirectory :: "jobject \<Rightarrow> jpath \<Rightarrow> ('s, bool) java"
  FileSystem_getBlockSize :: "jobject \<Rightarrow> jpath \<Rightarrow> ('s, int) java"
  FileSystem_getUri_toString :: "jobject \<Rightarrow> ('s, string) java"
  FileSystem_setOwner :: "jobject \<Rightarrow> jpath \<Rightarrow> string \<Rightarrow> string \<Rightarrow> ('s, unit) java"
  FileSystem_open :: "jobject \<Rightarrow> jpath \<Rightarrow> int \<Rightarrow> ('s, jobject) java"
  FileSystem_append :: "jobject \<Rightarrow> jpath \<Rightarrow> ('s, jobject) java"
  FileSystem_create :: "jobject \<Rightarrow> jpath \<Rightarrow> bool \<Rightarrow> int \<Rightarrow> int \<Rightarrow> int \<Rightarrow> ('s, jobject) java"
  FileSystem_getDefaultBlockSize :: "jobject \<Rightarrow> jpath \<Rightarrow> ('s, int) java"
  Path_toString :: "jpath \<Rightarrow> string"
  Path_depth :: "jpath \<Rightarrow> int"
  Path_isAbsolute :: "jpath \<Rightarrow> bool"
  Path_getParent :: "jpath \<Rightarrow> jpath option"
  Path_getName :: "jpath \<Rightarrow> string"

text \<open>\<^verbatim>\<open>get_jpath(path)\<close>; the empty string stands for every falsy path.\<close>

definition get_jpath :: "string \<Rightarrow> ('s, jpath) py" where
  "get_jpath path = (if path = [] then py_raise (ValueError ''Empty path'') else py_return (Path path))"

text \<open>
  \<^verbatim>\<open>class CoreHdfsFs\<close>. \<^verbatim>\<open>__init__\<close> stores the attributes of \<open>connection\<close> and then calls
  \<^verbatim>\<open>_connect\<close>, which adds \<^verbatim>\<open>_fs\<close> on every path and \<^verbatim>\<open>_fs_uri\<close> on two of the three.
  An optional string is \<open>None\<close> for Python's \<^verbatim>\<open>None\<close>.
\<close>

record connection =
  hdfs_host :: "string option"
  hdfs_port :: int
  hdfs_user :: "string option"
  hdfs_groups :: "string list option"
  hdfs_configuration :: jobject

record CoreHdfsFs = connection +
  hdfs_fs :: jobject
  hdfs_fs_uri :: "jobject option"

text \<open>\<^verbatim>\<open>x is None or x == ''\<close>, and the truth value of an optional string.\<close>

definition none_or_empty :: "string option \<Rightarrow> bool" where
  "none_or_empty x \<longleftrightarrow> x = None \<or> x = Some []"

text \<open>\<^verbatim>\<open>_connect(self)\<close>\<close>

definition connect :: "'s fs_backend \<Rightarrow> connection \<Rightarrow> ('s, CoreHdfsFs) py" where
  "connect b self =
     (if none_or_empty (hdfs_host self) then
        py_bind (jcall (FileSystem_getLocal b (hdfs_configuration self))) (\<lambda>fs.
        py_return (connection.extend self \<lparr>hdfs_fs = fs, hdfs_fs_uri = None\<rparr>))
      else if hdfs_host self = Some ''default'' \<and> hdfs_port self = 0 then
        py_bind (jcall (FileSystem_getDefaultUri b (hdfs_configuration self))) (\<lambda>fs_uri.
        py_bind (jcall (FileSystem_get b fs_uri (hdfs_configuration self)
                   (if none_or_empty (hdfs_user self) then None else hdfs_user self))) (\<lambda>fs.
        py_return (connection.extend self \<lparr>hdfs_fs = fs, hdfs_fs_uri = Some fs_uri\<rparr>)))
      else
        (let uri_str = ''hdfs://'' @ the (hdfs_host self) @ '':'' @ str_int (hdfs_port self) in
         py_bind (jcall (URI_create b uri_str)) (\<lambda>fs_uri.
         py_bind (jcall (FileSystem_get b fs_uri (hdfs_configuration self)
                    (if none_or_empty (hdfs_user self) then None else hdfs_user self))) (\<lambda>fs.
         py_return (connection.extend self \<lparr>hdfs_fs = fs, hdfs_fs_uri = Some fs_uri\<rparr>)))))"

text \<open>\<^verbatim>\<open>CoreHdfsFs.__init__(self, host, port=0, user=None, groups=None)\<close>\<close>

definition CoreHdfsFs_init ::
  "'s fs_backend \<Rightarrow> string option \<Rightarrow> int \<Rightarrow> string option \<Rightarrow> string list option \<Rightarrow> ('s, CoreHdfsFs) py" where
  "CoreHdfsFs_init b host port user groups =
     py_bind (jcall (new_Configuration b True)) (\<lambda>conf.
     connect b \<lparr>hdfs_host = host, hdfs_port = port, hdfs_user = user, hdfs_groups = groups,
                hdfs_configuration = conf\<rparr>)"

text \<open>The dictionary \<^verbatim>\<open>_get_jpath_info\<close> builds; \<^verbatim>\<open>parent\<close> is the one optional key.\<close>

record path_info =
  info_name :: string
  info_kind :: string
  info_group :: string
  info_last_mod :: int
  info_last_access :: int
  info_replication :: int
  info_owner :: string
  info_permissions :: int
  info_block_size :: int
  info_path :: string
  info_fs_uri :: string
  info_depth :: int
  info_size :: int
  info_absolute :: bool
  info_parent :: "string option"

text \<open>
  \<^verbatim>\<open>_get_jpath_info(self, jpath, jstatus=None)\<close>. The calls on the filesystem object are
  made in the order of the source: the status (unless given), \<^verbatim>\<open>isDirectory\<close>,
  \<^verbatim>\<open>getBlockSize\<close>, \<^verbatim>\<open>getUri\<close>.
\<close>

definition get_jpath_info ::
  "'s fs_backend \<Rightarrow> CoreHdfsFs \<Rightarrow> jpath \<Rightarrow> jstatus option \<Rightarrow> ('s, path_info) py" where
  "get_jpath_info b self jpath jstatus =
     py_bind
       (case jstatus of
          None \<Rightarrow>
            py_try
              (py_bind (jcall (FileSystem_getFileStatus b (hdfs_fs self) jpath)) (\<lambda>jstatus.
               py_return (getPath jstatus, jstatus)))
              (\<lambda>e. py_raise (IOError []))
        | Some jstatus \<Rightarrow> py_return (jpath, jstatus))
       (\<lambda>(jpath, jstatus).
     py_bind (jcall (FileSystem_isDirectory b (hdfs_fs self) jpath)) (\<lambda>is_directory.
     py_bind (jcall (FileSystem_getBlockSize b (hdfs_fs self) jpath)) (\<lambda>block_size.
     py_bind (jcall (FileSystem_getUri_toString b (hdfs_fs self))) (\<lambda>fs_uri.
     py_return
       \<lparr> info_name = Path_toString b jpath,
         info_kind = (if is_directory then ''directory'' else ''file''),
         info_group = getGroup jstatus,
         info_last_mod = Long_intValue (Long_valueOf (sint (getModificationTime jstatus))),
         info_last_access = Long_intValue (Long_valueOf (sint (getAccessTime jstatus))),
         info_replication = getReplication jstatus,
         info_owner = getOwner jstatus,
         info_permissions = getPermission_toShort jstatus,
         info_block_size = block_size,
         info_path = Path_toString b (getPath jstatus),
         info_fs_uri = fs_uri,
         info_depth = Path_depth b jpath,
         info_size = getLen jstatus,
         info_absolute = (if Path_isAbsolute b jpath then True else False),
         info_parent = (case Path_getParent b jpath of
                          None \<Rightarrow> None
                        | Some parent \<Rightarrow> Some (Path_getName b parent)) \<rparr>))))"

definition get_path_info :: "'s fs_backend \<Rightarrow> CoreHdfsFs \<Rightarrow> string \<Rightarrow> ('s, path_info) py" where
  "get_path_info b self path =
     py_bind (get_jpath path) (\<lambda>jpath. get_jpath_info b self jpath None)"

text \<open>\<^verbatim>\<open>chown(self, path, user, group)\<close>, the last parameter written \<open>grp\<close>.\<close>

definition chown ::
  "'s fs_backend \<Rightarrow> CoreHdfsFs \<Rightarrow> string \<Rightarrow> string option \<Rightarrow> string option \<Rightarrow> ('s, unit) py" where
  "chown b self path user grp =
     (if none_or_empty user \<and> none_or_empty grp then
        py_raise (Exception ''Both owner and group cannot be null in chown'')
      else
        py_bind (get_jpath path) (\<lambda>jpath.
        py_bind (get_jpath_info b self jpath None) (\<lambda>old_path_info.
        (let user = (if none_or_empty user then info_owner old_path_info else the user);
             grp = (if none_or_empty grp then info_group old_path_info else the grp)
         in jcall (FileSystem_setOwner b (hdfs_fs self) jpath user grp)))))"

text \<open>
  \<^verbatim>\<open>open_file(self, path, flags=0, buff_size=0, replication=1, blocksize=0,
  readline_chunk_size=16384)\<close>. The last parameter is not used by the body and the calls of
  the logger (a warning when both \<^verbatim>\<open>O_CREAT\<close> and \<^verbatim>\<open>O_EXCL\<close> are set, three debug lines)
  have no effect on the result; both are left out.
\<close>

definition O_ACCMODE :: int where
  "O_ACCMODE = O_RDONLY OR O_RDWR OR O_WRONLY"

definition open_file ::
  "'s fs_backend \<Rightarrow> CoreHdfsFs \<Rightarrow> string \<Rightarrow> int \<Rightarrow> int \<Rightarrow> int \<Rightarrow> int \<Rightarrow> ('s, CoreHdfsFile) py" where
  "open_file b self path flags buff_size replication blocksize =
     (let accmode = flags AND O_ACCMODE in
      if accmode \<noteq> O_WRONLY \<and> accmode \<noteq> O_RDONLY then
        (if accmode = O_RDWR then py_raise (IOError ''Cannot open an hdfs file in O_RDWR mode'')
         else py_raise (IOError (''Cannot open an hdfs file in mode '' @ str_int accmode)))
      else
        py_bind
          (if buff_size = 0
           then jcall (Configuration_getInt b (hdfs_configuration self) BLOCKSIZE_CONFIG_PROPERTY 4096)
           else py_return buff_size) (\<lambda>buff_size.
        py_bind
          (if accmode = O_WRONLY \<and> flags AND O_APPEND = 0 \<and> replication = 0
           then jcall (Configuration_getInt b (hdfs_configuration self) REPLICATION_CONFIG_PROPERTY 1)
           else py_return replication) (\<lambda>replication.
        py_bind (get_jpath path) (\<lambda>jpath.
        py_bind
          (py_try
             (if accmode = O_RDONLY then
                py_bind (jcall (FileSystem_open b (hdfs_fs self) jpath buff_size)) (\<lambda>stream.
                py_return (stream, INPUT))
              else if accmode = O_WRONLY \<and> flags AND O_APPEND \<noteq> 0 then
                py_bind (jcall (FileSystem_append b (hdfs_fs self) jpath)) (\<lambda>stream.
                py_return (stream, OUTPUT))
              else
                py_bind
                  (if blocksize = 0
                   then jcall (FileSystem_getDefaultBlockSize b (hdfs_fs self) jpath)
                   else py_return blocksize) (\<lambda>blocksize.
                py_bind (jcall (FileSystem_create b (hdfs_fs self) jpath True buff_size
                           replication blocksize)) (\<lambda>stream.
                py_return (stream, OUTPUT))))
             reraise_IOError) (\<lambda>(stream, stream_type).
        py_return (CoreHdfsFile_init flags (Some stream) stream_type))))))"

section \<open>The normalisation the specification asks for\<close>

text \<open>
  The specification's byte marshalling, in its own words: a backend byte is placed in
  the result as its value in the unsigned range 0..255, the signed values -128..-1
  becoming 128..255. \<open>unsigned_chr\<close> is the one-byte string of that value.
\<close>

definition unsigned_chr :: "jbyte \<Rightarrow> char" where
  "unsigned_chr w = char_of (if sint w < 0 then sint w + 256 else sint w)"

section \<open>A backend to run the file handle against\<close>

text \<open>
  An in-memory stand-in for the Java streams: every stream is at the start of a file
  holding \<open>content\<close>, every call succeeds, and the world is the list of the calls made,
  each with its receiver. A read follows the contract of \<^verbatim>\<open>java.io.InputStream.read\<close>:
  0 for an empty array, -1 with the array untouched at end of stream, otherwise the
  count of the bytes copied to the front of the array.
\<close>

datatype stream_call =
    CloseCall jobject
  | WriteCall jobject "jbyte list"
  | GetPosCall jobject
  | SeekCall jobject int
  | ReadCall jobject nat
  | PReadCall jobject int nat
  | FlushCall jobject

fun receiver :: "stream_call \<Rightarrow> jobject" where
  "receiver (CloseCall obj) = obj"
| "receiver (WriteCall obj bs) = obj"
| "receiver (GetPosCall obj) = obj"
| "receiver (SeekCall obj p) = obj"
| "receiver (ReadCall obj n) = obj"
| "receiver (PReadCall obj p n) = obj"
| "receiver (FlushCall obj) = obj"

definition serve :: "jbyte list \<Rightarrow> jbyte list \<Rightarrow> int \<times> jbyte list" where
  "serve content buf =
     (if buf = [] then (0, buf)
      else if content = [] then (- 1, buf)
      else (int (min (length buf) (length content)),
            take (length buf) content @ drop (length content) buf))"

definition file_streams :: "jbyte list \<Rightarrow> stream_call list stream_backend" where
  "file_streams content =
     \<lparr> stream_close = (\<lambda>obj s. (Inr (), s @ [CloseCall obj])),
       stream_write = (\<lambda>obj bs s. (Inr (), s @ [WriteCall obj bs])),
       stream_getPos = (\<lambda>obj s. (Inr 0, s @ [GetPosCall obj])),
       stream_seek = (\<lambda>obj p s. (Inr (), s @ [SeekCall obj p])),
       stream_read = (\<lambda>obj buf s. (Inr (serve content buf), s @ [ReadCall obj (length buf)])),
       stream_pread = (\<lambda>obj p buf off len s.
          (Inr (serve (drop (nat p) content) buf), s @ [PReadCall obj p (length buf)])),
       stream_flush = (\<lambda>obj s. (Inr (), s @ [FlushCall obj])) \<rparr>"

section \<open>A backend to run the filesystem handle against\<close>

text \<open>
  An in-memory stand-in for the Hadoop client: one file, found under every path, whose
  owner, group and modification time are part of the world; \<open>setOwner\<close> stores what it
  is given. Every call succeeds and is recorded with its arguments.
\<close>

datatype fs_call =
    NewConfiguration bool
  | GetLocal jobject
  | GetDefaultUri jobject
  | Get jobject jobject "string option"
  | UriCreate string
  | GetInt jobject string int
  | GetFileStatus jobject jpath
  | IsDirectory jobject jpath
  | GetBlockSize jobject jpath
  | GetUri jobject
  | SetOwner jobject jpath string string
  | Open jobject jpath int
  | Append jobject jpath
  | Create jobject jpath bool int int int
  | GetDefaultBlockSize jobject jpath

record fs_world =
  file_owner :: string
  file_group :: string
  file_mtime :: jlong
  calls :: "fs_call list"

definition called :: "fs_call \<Rightarrow> fs_world \<Rightarrow> fs_world" where
  "called c w = w\<lparr>calls := calls w @ [c]\<rparr>"

definition memory_fs :: "fs_world fs_backend" where
  "memory_fs =
     \<lparr> new_Configuration = (\<lambda>d w. (Inr (JObject 0), called (NewConfiguration d) w)),
       FileSystem_getLocal = (\<lambda>conf w. (Inr (JObject 1), called (GetLocal conf) w)),
       FileSystem_getDefaultUri = (\<lambda>conf w. (Inr (JObject 2), called (GetDefaultUri conf) w)),
       FileSystem_get = (\<lambda>uri conf user w. (Inr (JObject 3), called (Get uri conf user) w)),
       URI_create = (\<lambda>str w. (Inr (JObject 4), called (UriCreate str) w)),
       Configuration_getInt = (\<lambda>conf name dflt w. (Inr dflt, called (GetInt conf name dflt) w)),
       FileSystem_getFileStatus = (\<lambda>fs p w.
         (Inr \<lparr> getPath = p, getGroup = file_group w, getOwner = file_owner w,
                getModificationTime = file_mtime w, getAccessTime = file_mtime w,
                getReplication = 3, getPermission_toShort = 420, getLen = 0 \<rparr>,
          called (GetFileStatus fs p) w)),
       FileSystem_isDirectory = (\<lambda>fs p w. (Inr False, called (IsDirectory fs p) w)),
       FileSystem_getBlockSize = (\<lambda>fs p w. (Inr 134217728, called (GetBlockSize fs p) w)),
       FileSystem_getUri_toString = (\<lambda>fs w. (Inr ''file:///'', called (GetUri fs) w)),
       FileSystem_setOwner = (\<lambda>fs p u g w.
         (Inr (), called (SetOwner fs p u g) (w\<lparr>file_owner := u, file_group := g\<rparr>))),
       FileSystem_open = (\<lambda>fs p n w. (Inr (JObject 5), called (Open fs p n) w)),
       FileSystem_append = (\<lambda>fs p w. (Inr (JObject 5), called (Append fs p) w)),
       FileSystem_create = (\<lambda>fs p ov n r bs w. (Inr (JObject 5), called (Create fs p ov n r bs) w)),
       FileSystem_getDefaultBlockSize = (\<lambda>fs p w.
         (Inr 134217728, called (GetDefaultBlockSize fs p) w)),
       Path_toString = (\<lambda>p. case p of Path str \<Rightarrow> str),
       Path_depth = (\<lambda>p. 1),
       Path_isAbsolute = (\<lambda>p. True),
       Path_getParent = (\<lambda>p. None),
       Path_getName = (\<lambda>p. case p of Path str \<Rightarrow> str) \<rparr>"

text \<open>A handle connected to the local filesystem, and a world to start from.\<close>

definition local_fs :: CoreHdfsFs where
  "local_fs =
     \<lparr> hdfs_host = Some [], hdfs_port = 0, hdfs_user = None, hdfs_groups = None,
       hdfs_configuration = JObject 0, hdfs_fs = JObject 1, hdfs_fs_uri = None \<rparr>"

definition world0 :: fs_world where
  "world0 = \<lparr> file_owner = ''bob'', file_group = ''staff'', file_mtime = 1400000000000,
              calls = [] \<rparr>"

section \<open>Facts about the marshalling and the four reads\<close>

lemma sint_jbyte_range: "- 128 \<le> sint (w::jbyte) \<and> sint w < 128"
  using sint_ge [of w] sint_lt [of w] by simp

lemma sint_norm: "sint (w::jbyte) mod 256 = (if sint w < 0 then sint w + 256 else sint w)"
  using sint_jbyte_range [of w] by arith

lemma py_chr_norm: "py_chr (sint (w::jbyte) mod 256) = Inr (unsigned_chr w)"
  unfolding sint_norm unsigned_chr_def py_chr_def
  using sint_jbyte_range [of w] by simp

lemma join_map_chr_sint: "join_map_chr (map sint ws) = Inr (map unsigned_chr ws)"
  by (induction ws) (simp_all add: py_chr_norm)

lemma marshal_eq: "marshal buf n s = (Inr (map unsigned_chr (py_slice_to buf n)), s)"
  by (simp add: marshal_def join_map_chr_sint)

lemma of_char_unsigned_chr:
  "(of_char (unsigned_chr w) :: int) = (if sint w < 0 then sint w + 256 else sint w)"
  using sint_jbyte_range [of w] by (simp add: unsigned_chr_def)

lemmas py_defs = py_bind_def py_try_def py_return_def py_raise_def jcall_def reraise_IOError_def

text \<open>
  What each read does on an INPUT handle with a stream, for every answer of the backend.
  The array handed over is the fresh zero-filled one.
\<close>

lemma read_eq:
  assumes "\<not> not_input h" and "0 \<le> (if len = - 1 then bufsize else len)"
  shows "read b bufsize h len s =
    (case stream_read b (the (file_stream h))
            (replicate (nat (if len = - 1 then bufsize else len)) 0) s of
       (Inl m, s') \<Rightarrow> (Inl (IOError m), s')
     | (Inr (n, buf), s') \<Rightarrow>
         if n = - 1 then (Inr [], s') else (Inr (map unsigned_chr (py_slice_to buf n)), s'))"
  using assms
  by (simp add: read_def py_defs ByteBuffer_allocate_def marshal_eq Let_def
      split: prod.splits sum.splits)

lemma read_chunk_eq:
  assumes "\<not> not_input h"
  shows "read_chunk b h c s =
    (case stream_read b (the (file_stream h)) (replicate (chunk_len c) 0) s of
       (Inl m, s') \<Rightarrow> (Inl (IOError m), s')
     | (Inr (n, buf), s') \<Rightarrow>
         if n = - 1 then (Inr (PyStr [], c), s')
         else (Inr (PyInt n, c\<lparr>chunk_value := map unsigned_chr (py_slice_to buf n)\<rparr>), s'))"
  using assms
  by (simp add: read_chunk_def py_defs ByteBuffer_allocate_def marshal_eq Let_def
      split: prod.splits sum.splits)

lemma pread_eq:
  assumes "\<not> not_input h" and "0 \<le> (if len = - 1 then bufsize else len)"
  shows "pread b bufsize h position len s =
    (case stream_pread b (the (file_stream h)) position
            (replicate (nat (if len = - 1 then bufsize else len)) 0) 0
            (if len = - 1 then bufsize else len) s of
       (Inl m, s') \<Rightarrow> (Inl (IOError m), s')
     | (Inr (n, buf), s') \<Rightarrow> (Inr (map unsigned_chr (py_slice_to buf n)), s'))"
  using assms
  by (simp add: pread_def py_defs ByteBuffer_allocate_def marshal_eq Let_def
      split: prod.splits sum.splits)

lemma pread_chunk_eq:
  assumes "\<not> not_input h"
  shows "pread_chunk b h position c s =
    (case stream_pread b (the (file_stream h)) position (replicate (chunk_len c) 0) 0
            (int (chunk_len c)) s of
       (Inl m, s') \<Rightarrow> (Inl (IOError m), s')
     | (Inr (n, buf), s') \<Rightarrow>
         (Inr (PyInt n, c\<lparr>chunk_value := map unsigned_chr (py_slice_to buf n)\<rparr>), s'))"
  using assms
  by (simp add: pread_chunk_def py_defs ByteBuffer_allocate_def marshal_eq Let_def
      split: prod.splits sum.splits)

section \<open>File handle: what the writes and the close do\<close>

lemma input_handle: "\<not> not_input (CoreHdfsFile_init m (Some obj) INPUT)"
  by (simp add: not_input_def CoreHdfsFile_init_def)

lemma output_handle: "\<not> not_output (CoreHdfsFile_init m (Some obj) OUTPUT)"
  by (simp add: not_output_def CoreHdfsFile_init_def)

lemma write_prim_eq:
  assumes "\<not> not_output h"
  shows "write_prim b h data len s =
    (if len < 0 then (Inl (IOError []), s)
     else if len = 0 then (Inr 0, s)
     else case stream_write b (the (file_stream h)) (jbytearray data) s of
            (Inl m, s') \<Rightarrow> (Inl (JavaException m), s')
          | (Inr u, s') \<Rightarrow> (Inr len, s'))"
  using assms by (simp add: write_prim_def py_defs split: prod.splits sum.splits)

section \<open>Claims about the file handle\<close>

text \<open>
  Claim C1 (end of stream in the positional reads). On an empty file every read is at end
  of stream and the backend answers -1, leaving the zero-filled array as it was.
  \<open>read\<close> then returns the empty string and \<open>read_chunk\<close> returns the empty string and
  leaves the chunk alone, as the claim says. \<open>pread\<close> and \<open>pread_chunk\<close> have no test for
  -1: they slice the array with it, so for a request of 4 bytes \<open>pread\<close> returns three
  NUL bytes and \<open>pread_chunk\<close> stores three NUL bytes in the chunk and returns -1.
\<close>

theorem pread_at_end_of_stream:
  "read (file_streams []) 16384 (CoreHdfsFile_init 0 (Some (JObject 0)) INPUT) 4 []
     = (Inr [], [ReadCall (JObject 0) 4])
   \<and> pread (file_streams []) 16384 (CoreHdfsFile_init 0 (Some (JObject 0)) INPUT) 0 4 []
     = (Inr [CHR 0x00, CHR 0x00, CHR 0x00], [PReadCall (JObject 0) 0 4])
   \<and> read_chunk (file_streams []) (CoreHdfsFile_init 0 (Some (JObject 0)) INPUT)
        \<lparr>chunk_len = 4, chunk_value = ''abcd''\<rparr> []
     = (Inr (PyStr [], \<lparr>chunk_len = 4, chunk_value = ''abcd''\<rparr>), [ReadCall (JObject 0) 4])
   \<and> pread_chunk (file_streams []) (CoreHdfsFile_init 0 (Some (JObject 0)) INPUT) 0
        \<lparr>chunk_len = 4, chunk_value = ''abcd''\<rparr> []
     = (Inr (PyInt (- 1), \<lparr>chunk_len = 4, chunk_value = [CHR 0x00, CHR 0x00, CHR 0x00]\<rparr>),
        [PReadCall (JObject 0) 0 4])"
  by code_simp

text \<open>
  Claim C2 (writes go through the buffering wrapper), refuted. The handle of an OUTPUT
  stream holds the wrapper built by the constructor, and a write of two bytes reaches
  the backend as one call whose receiver is the raw stream, not the wrapper.
\<close>

theorem write_bypasses_wrapper_counterexample:
  "file_buffered_stream (CoreHdfsFile_init 1 (Some (JObject 0)) OUTPUT)
     = Some (BufferedOutputStream (Some (JObject 0)))
   \<and> write_data (file_streams []) (CoreHdfsFile_init 1 (Some (JObject 0)) OUTPUT) ''ab'' []
     = (Inr 2, [WriteCall (JObject 0) [97, 98]])
   \<and> map receiver
        (snd (write_data (file_streams []) (CoreHdfsFile_init 1 (Some (JObject 0)) OUTPUT) ''ab'' []))
     = [JObject 0]
   \<and> map receiver
        (snd (write_chunk (file_streams []) (CoreHdfsFile_init 1 (Some (JObject 0)) OUTPUT)
               \<lparr>chunk_len = 2, chunk_value = ''ab''\<rparr> []))
     = [JObject 0]"
  by code_simp

text \<open>
  Claim C2, as amended. The constructor of an OUTPUT handle builds the buffering wrapper
  around the raw stream and keeps it, and the wrapper is another object than the raw
  stream; \<open>write\<close> and \<open>write_chunk\<close> hand non-empty data to the \<open>write\<close> method of the raw
  stream itself (and make no call for empty data), whatever the backend is.
\<close>

theorem write_goes_to_raw_stream:
  "file_buffered_stream (CoreHdfsFile_init mode (Some raw) OUTPUT)
     = Some (BufferedOutputStream (Some raw))
   \<and> BufferedOutputStream (Some raw) \<noteq> raw
   \<and> write_data b (CoreHdfsFile_init mode (Some raw) OUTPUT) data s =
       (if data = [] then (Inr 0, s)
        else case stream_write b raw (jbytearray data) s of
               (Inl m, s') \<Rightarrow> (Inl (JavaException m), s')
             | (Inr u, s') \<Rightarrow> (Inr (int (length data)), s'))
   \<and> write_chunk b (CoreHdfsFile_init mode (Some raw) OUTPUT) c s =
       (if chunk_value c = [] then (Inr 0, s)
        else case stream_write b raw (jbytearray (chunk_value c)) s of
               (Inl m, s') \<Rightarrow> (Inl (JavaException m), s')
             | (Inr u, s') \<Rightarrow> (Inr (int (length (chunk_value c))), s'))"
proof (intro conjI)
  show "file_buffered_stream (CoreHdfsFile_init mode (Some raw) OUTPUT)
     = Some (BufferedOutputStream (Some raw))"
    by (simp add: CoreHdfsFile_init_def)
  show "BufferedOutputStream (Some raw) \<noteq> raw"
  proof
    assume "BufferedOutputStream (Some raw) = raw"
    then have "size (BufferedOutputStream (Some raw)) = size raw" by simp
    then show False by simp
  qed
  have raw: "the (file_stream (CoreHdfsFile_init mode (Some raw) OUTPUT)) = raw"
    by (simp add: CoreHdfsFile_init_def)
  show "write_data b (CoreHdfsFile_init mode (Some raw) OUTPUT) data s =
       (if data = [] then (Inr 0, s)
        else case stream_write b raw (jbytearray data) s of
               (Inl m, s') \<Rightarrow> (Inl (JavaException m), s')
             | (Inr u, s') \<Rightarrow> (Inr (int (length data)), s'))"
    by (simp add: write_data_def write_prim_eq [OF output_handle] raw)
  show "write_chunk b (CoreHdfsFile_init mode (Some raw) OUTPUT) c s =
       (if chunk_value c = [] then (Inr 0, s)
        else case stream_write b raw (jbytearray (chunk_value c)) s of
               (Inl m, s') \<Rightarrow> (Inl (JavaException m), s')
             | (Inr u, s') \<Rightarrow> (Inr (int (length (chunk_value c))), s'))"
    by (simp add: write_chunk_def write_prim_eq [OF output_handle] raw)
qed

theorem write_goes_to_raw_stream_witness:
  "file_buffered_stream (CoreHdfsFile_init 1 (Some (JObject 0)) OUTPUT)
     = Some (BufferedOutputStream (Some (JObject 0)))
   \<and> write_data (file_streams []) (CoreHdfsFile_init 1 (Some (JObject 0)) OUTPUT) ''ab'' []
     = (Inr 2, [WriteCall (JObject 0) [97, 98]])"
proof -
  have w: "stream_write (file_streams []) (JObject 0) (jbytearray ''ab'') []
             = (Inr (), [WriteCall (JObject 0) [97, 98]])"
    by code_simp
  show ?thesis
    using write_goes_to_raw_stream [of 1 "JObject 0" "file_streams []" "''ab''" "[]"]
    by (simp add: w)
qed

text \<open>
  Claim C4 (every operation fails after close), refuted. Closing an OUTPUT handle
  succeeds and returns the handle unchanged; a write of the empty string on it afterwards
  returns 0 instead of failing, and makes no backend call.
\<close>

theorem closed_handle_still_usable_counterexample:
  "close (file_streams []) (CoreHdfsFile_init 1 (Some (JObject 0)) OUTPUT) []
     = (Inr (CoreHdfsFile_init 1 (Some (JObject 0)) OUTPUT), [CloseCall (JObject 0)])
   \<and> write_data (file_streams []) (CoreHdfsFile_init 1 (Some (JObject 0)) OUTPUT) []
        [CloseCall (JObject 0)]
     = (Inr 0, [CloseCall (JObject 0)])"
  by code_simp

text \<open>
  Claim C4, as amended. A close that succeeds has called \<open>close\<close> on the backend stream and
  leaves the handle as it was, its stream reference still set. So no later operation
  fails on the handle's own check for a stream: \<open>tell\<close>, a second \<open>close\<close>, \<open>flush\<close> (OUTPUT)
  and \<open>seek\<close> (INPUT) are passed to the backend stream and fail exactly when that call
  throws, and a write of the empty string on an OUTPUT handle returns 0.
\<close>

theorem close_keeps_handle:
  assumes "close b h s = (Inr h', s')"
  shows "h' = h \<and> file_stream h' \<noteq> None
       \<and> stream_close b (the (file_stream h)) s = (Inr (), s')
       \<and> tell b h' t = jcall (stream_getPos b (the (file_stream h))) t
       \<and> close b h' t = (case stream_close b (the (file_stream h)) t of
                           (Inl m, t') \<Rightarrow> (Inl (IOError m), t') | (Inr u, t') \<Rightarrow> (Inr h, t'))
       \<and> (file_stream_type h = OUTPUT \<longrightarrow>
             write_data b h' [] t = (Inr 0, t)
           \<and> flush b h' t = jcall (stream_flush b (the (file_stream h))) t)
       \<and> (file_stream_type h = INPUT \<longrightarrow>
             seek b h' p t = jcall (stream_seek b (the (file_stream h)) p) t)"
proof -
  from assms have live: "file_stream h \<noteq> None"
    by (auto simp: close_def py_defs split: if_splits)
  with assms have same: "h' = h" and cl: "stream_close b (the (file_stream h)) s = (Inr (), s')"
    by (auto simp: close_def py_defs split: if_splits prod.splits sum.splits)
  show ?thesis
    using live same cl
    by (auto simp: tell_def close_def py_defs write_data_def write_prim_def flush_def seek_def
        not_output_def not_input_def split: prod.splits sum.splits)
qed

theorem close_keeps_handle_witness:
  "close (file_streams []) (CoreHdfsFile_init 1 (Some (JObject 0)) OUTPUT) []
     = (Inr (CoreHdfsFile_init 1 (Some (JObject 0)) OUTPUT), [CloseCall (JObject 0)])
   \<and> write_data (file_streams []) (CoreHdfsFile_init 1 (Some (JObject 0)) OUTPUT) []
        [CloseCall (JObject 0)]
     = (Inr 0, [CloseCall (JObject 0)])"
proof -
  have c: "close (file_streams []) (CoreHdfsFile_init 1 (Some (JObject 0)) OUTPUT) []
     = (Inr (CoreHdfsFile_init 1 (Some (JObject 0)) OUTPUT), [CloseCall (JObject 0)])"
    by code_simp
  have t: "file_stream_type (CoreHdfsFile_init 1 (Some (JObject 0)) OUTPUT) = OUTPUT"
    by (simp add: CoreHdfsFile_init_def)
  from close_keeps_handle [OF c, of "[CloseCall (JObject 0)]"] t c show ?thesis
    by blast
qed

text \<open>
  Claim C8 (what a write returns). On an OUTPUT handle with a stream: a negative length
  fails with IOError and a length of zero returns 0, both without a backend call (the
  world is unchanged); a positive length returns exactly that length once the backend
  write has returned. \<open>write\<close> and \<open>write_chunk\<close> pass the length of their data.
\<close>

theorem write_returns_length:
  assumes "\<not> not_output h"
  shows "(len < 0 \<longrightarrow> write_prim b h data len s = (Inl (IOError []), s))
     \<and> write_prim b h data 0 s = (Inr 0, s)
     \<and> (0 < len \<and> stream_write b (the (file_stream h)) (jbytearray data) s = (Inr u, s1)
          \<longrightarrow> write_prim b h data len s = (Inr len, s1))
     \<and> write_data b h [] s = (Inr 0, s)
     \<and> (data \<noteq> [] \<and> stream_write b (the (file_stream h)) (jbytearray data) s = (Inr u, s1)
          \<longrightarrow> write_data b h data s = (Inr (int (length data)), s1))
     \<and> (chunk_value c = [] \<longrightarrow> write_chunk b h c s = (Inr 0, s))
     \<and> (chunk_value c \<noteq> []
          \<and> stream_write b (the (file_stream h)) (jbytearray (chunk_value c)) s = (Inr u, s2)
          \<longrightarrow> write_chunk b h c s = (Inr (int (length (chunk_value c))), s2))"
  by (simp add: write_data_def write_chunk_def write_prim_eq [OF assms])

theorem write_returns_length_witness:
  "\<not> not_output (CoreHdfsFile_init 1 (Some (JObject 0)) OUTPUT)
   \<and> write_prim (file_streams []) (CoreHdfsFile_init 1 (Some (JObject 0)) OUTPUT) ''ab'' (- 1) []
       = (Inl (IOError []), [])
   \<and> write_prim (file_streams []) (CoreHdfsFile_init 1 (Some (JObject 0)) OUTPUT) ''ab'' 0 []
       = (Inr 0, [])
   \<and> write_data (file_streams []) (CoreHdfsFile_init 1 (Some (JObject 0)) OUTPUT) ''ab'' []
       = (Inr 2, [WriteCall (JObject 0) [97, 98]])"
proof -
  have w: "stream_write (file_streams [])
             (the (file_stream (CoreHdfsFile_init 1 (Some (JObject 0)) OUTPUT)))
             (jbytearray ''ab'') []
             = (Inr (), [WriteCall (JObject 0) [97, 98]])"
    by code_simp
  show ?thesis
    using write_returns_length [OF output_handle, of "- 1" "file_streams []" 1 "JObject 0"
        "''ab''" "[]" "()" "[WriteCall (JObject 0) [97, 98]]"] w output_handle [of 1 "JObject 0"]
    by simp
qed

text \<open>
  Claim C9 (byte normalisation on every read). On an INPUT handle with a stream, whenever
  the backend read returns a count (other than the end-of-stream -1 for \<open>read\<close> and
  \<open>read_chunk\<close>), the string returned by \<open>read\<close> and \<open>pread\<close>, and the string stored in the
  chunk by \<open>read_chunk\<close> and \<open>pread_chunk\<close>, is the slice of the backend array with every
  byte mapped to its unsigned value: the code of each character is the byte's signed
  value, plus 256 when that is negative, so it lies in 0..255 and is at least 128 for a
  negative byte.
\<close>

theorem reads_normalise_bytes:
  assumes "\<not> not_input h"
  shows
   "(0 \<le> (if len = - 1 then bufsize else len) \<and> na \<noteq> - 1 \<and>
       stream_read b (the (file_stream h))
         (replicate (nat (if len = - 1 then bufsize else len)) 0) s = (Inr (na, bufa), sa)
       \<longrightarrow> read b bufsize h len s = (Inr (map unsigned_chr (py_slice_to bufa na)), sa))
  \<and> (nb \<noteq> - 1 \<and>
       stream_read b (the (file_stream h)) (replicate (chunk_len c) 0) s = (Inr (nb, bufb), sb)
       \<longrightarrow> read_chunk b h c s =
            (Inr (PyInt nb, c\<lparr>chunk_value := map unsigned_chr (py_slice_to bufb nb)\<rparr>), sb))
  \<and> (0 \<le> (if len = - 1 then bufsize else len) \<and>
       stream_pread b (the (file_stream h)) position
         (replicate (nat (if len = - 1 then bufsize else len)) 0) 0
         (if len = - 1 then bufsize else len) s = (Inr (nc, bufc), sc)
       \<longrightarrow> pread b bufsize h position len s = (Inr (map unsigned_chr (py_slice_to bufc nc)), sc))
  \<and> (stream_pread b (the (file_stream h)) position (replicate (chunk_len c) 0) 0
         (int (chunk_len c)) s = (Inr (nd, bufd), sd)
       \<longrightarrow> pread_chunk b h position c s =
            (Inr (PyInt nd, c\<lparr>chunk_value := map unsigned_chr (py_slice_to bufd nd)\<rparr>), sd))
  \<and> (of_char (unsigned_chr w) :: int) = (if sint w < 0 then sint w + 256 else sint w)
  \<and> (0::int) \<le> of_char (unsigned_chr w) \<and> (of_char (unsigned_chr w) :: int) < 256
  \<and> (sint w < 0 \<longrightarrow> (128::int) \<le> of_char (unsigned_chr w))"
proof -
  have range: "(0::int) \<le> of_char (unsigned_chr w) \<and> (of_char (unsigned_chr w) :: int) < 256
      \<and> (sint w < 0 \<longrightarrow> (128::int) \<le> of_char (unsigned_chr w))"
    using sint_jbyte_range [of w] by (simp add: of_char_unsigned_chr)
  have r: "0 \<le> (if len = - 1 then bufsize else len) \<and> na \<noteq> - 1 \<and>
       stream_read b (the (file_stream h))
         (replicate (nat (if len = - 1 then bufsize else len)) 0) s = (Inr (na, bufa), sa)
       \<longrightarrow> read b bufsize h len s = (Inr (map unsigned_chr (py_slice_to bufa na)), sa)"
    using assms by (simp add: read_eq)
  have rc: "nb \<noteq> - 1 \<and>
       stream_read b (the (file_stream h)) (replicate (chunk_len c) 0) s = (Inr (nb, bufb), sb)
       \<longrightarrow> read_chunk b h c s =
            (Inr (PyInt nb, c\<lparr>chunk_value := map unsigned_chr (py_slice_to bufb nb)\<rparr>), sb)"
    using assms by (simp add: read_chunk_eq)
  have p: "0 \<le> (if len = - 1 then bufsize else len) \<and>
       stream_pread b (the (file_stream h)) position
         (replicate (nat (if len = - 1 then bufsize else len)) 0) 0
         (if len = - 1 then bufsize else len) s = (Inr (nc, bufc), sc)
       \<longrightarrow> pread b bufsize h position len s = (Inr (map unsigned_chr (py_slice_to bufc nc)), sc)"
    using assms by (simp add: pread_eq)
  have pc: "stream_pread b (the (file_stream h)) position (replicate (chunk_len c) 0) 0
         (int (chunk_len c)) s = (Inr (nd, bufd), sd)
       \<longrightarrow> pread_chunk b h position c s =
            (Inr (PyInt nd, c\<lparr>chunk_value := map unsigned_chr (py_slice_to bufd nd)\<rparr>), sd)"
    using assms by (simp add: pread_chunk_eq)
  from r rc p pc range of_char_unsigned_chr [of w] show ?thesis
    by blast
qed

theorem reads_normalise_bytes_witness:
  "read (file_streams [255, 65, 128]) 16384 (CoreHdfsFile_init 0 (Some (JObject 0)) INPUT) 2 []
     = (Inr [CHR 0xFF, CHR ''A''], [ReadCall (JObject 0) 2])
   \<and> read_chunk (file_streams [255, 65, 128]) (CoreHdfsFile_init 0 (Some (JObject 0)) INPUT)
        \<lparr>chunk_len = 4, chunk_value = ''abcd''\<rparr> []
     = (Inr (PyInt 3, \<lparr>chunk_len = 4, chunk_value = [CHR 0xFF, CHR ''A'', CHR 0x80]\<rparr>),
        [ReadCall (JObject 0) 4])
   \<and> pread (file_streams [255, 65, 128]) 16384 (CoreHdfsFile_init 0 (Some (JObject 0)) INPUT) 2 2 []
     = (Inr [CHR 0x80], [PReadCall (JObject 0) 2 2])
   \<and> pread_chunk (file_streams [255, 65, 128]) (CoreHdfsFile_init 0 (Some (JObject 0)) INPUT) 1
        \<lparr>chunk_len = 4, chunk_value = ''abcd''\<rparr> []
     = (Inr (PyInt 2, \<lparr>chunk_len = 4, chunk_value = [CHR ''A'', CHR 0x80]\<rparr>),
        [PReadCall (JObject 0) 1 4])
   \<and> (of_char (unsigned_chr 128) :: int) = 128"
proof -
  let ?B = "file_streams [255, 65, 128]"
  let ?H = "CoreHdfsFile_init 0 (Some (JObject 0)) INPUT"
  let ?C = "\<lparr>chunk_len = 4, chunk_value = ''abcd''\<rparr>"
  have h1: "0 \<le> (if (2::int) = - 1 then (16384::int) else 2) \<and> (2::int) \<noteq> - 1 \<and>
       stream_read ?B (the (file_stream ?H))
         (replicate (nat (if (2::int) = - 1 then (16384::int) else 2)) 0) []
         = (Inr (2, [255, 65]), [ReadCall (JObject 0) 2])"
    by (intro conjI; ((simp; fail) | code_simp))
  have h2: "(3::int) \<noteq> - 1 \<and>
       stream_read ?B (the (file_stream ?H)) (replicate (chunk_len ?C) 0) []
         = (Inr (3, [255, 65, 128, 0]), [ReadCall (JObject 0) 4])"
    by (intro conjI; ((simp; fail) | code_simp))
  have h3: "0 \<le> (if (2::int) = - 1 then (16384::int) else 2) \<and>
       stream_pread ?B (the (file_stream ?H)) 2
         (replicate (nat (if (2::int) = - 1 then (16384::int) else 2)) 0) 0
         (if (2::int) = - 1 then (16384::int) else 2) []
         = (Inr (1, [128, 0]), [PReadCall (JObject 0) 2 2])"
    by (intro conjI; ((simp; fail) | code_simp))
  have h4: "stream_pread ?B (the (file_stream ?H)) 1 (replicate (chunk_len ?C) 0) 0
         (int (chunk_len ?C)) [] = (Inr (2, [65, 128, 0, 0]), [PReadCall (JObject 0) 1 4])"
    by code_simp
  have v: "map unsigned_chr (py_slice_to [255, 65] 2) = [CHR 0xFF, CHR ''A'']"
    "map unsigned_chr (py_slice_to [255, 65, 128, 0] 3) = [CHR 0xFF, CHR ''A'', CHR 0x80]"
    "map unsigned_chr (py_slice_to [128, 0] 1) = [CHR 0x80]"
    "map unsigned_chr (py_slice_to [65, 128, 0, 0] 2) = [CHR ''A'', CHR 0x80]"
    "(if sint (128::jbyte) < 0 then sint (128::jbyte) + 256 else sint (128::jbyte)) = 128"
    by code_simp+
  note T = reads_normalise_bytes [OF input_handle [of 0 "JObject 0"], where b = "?B"
      and bufsize = 16384 and len = 2 and s = "[]" and c = "?C"
      and na = 2 and bufa = "[255, 65]" and sa = "[ReadCall (JObject 0) 2]"
      and nb = 3 and bufb = "[255, 65, 128, 0]" and sb = "[ReadCall (JObject 0) 4]"
      and nc = 1 and bufc = "[128, 0]" and sc = "[PReadCall (JObject 0) 2 2]"
      and nd = 2 and bufd = "[65, 128, 0, 0]" and sd = "[PReadCall (JObject 0) 1 4]"
      and w = 128]
  have r: "read ?B 16384 ?H 2 [] = (Inr (map unsigned_chr (py_slice_to [255, 65] 2)),
             [ReadCall (JObject 0) 2])"
    using T h1 by blast
  have rc: "read_chunk ?B ?H ?C [] =
      (Inr (PyInt 3, ?C\<lparr>chunk_value := map unsigned_chr (py_slice_to [255, 65, 128, 0] 3)\<rparr>),
       [ReadCall (JObject 0) 4])"
    using T h2 by blast
  have p: "pread ?B 16384 ?H 2 2 [] = (Inr (map unsigned_chr (py_slice_to [128, 0] 1)),
             [PReadCall (JObject 0) 2 2])"
    using T [where position = 2] h3 by blast
  have pc: "pread_chunk ?B ?H 1 ?C [] =
      (Inr (PyInt 2, ?C\<lparr>chunk_value := map unsigned_chr (py_slice_to [65, 128, 0, 0] 2)\<rparr>),
       [PReadCall (JObject 0) 1 4])"
    using T [where position = 1] h4 by blast
  have u: "(of_char (unsigned_chr 128) :: int) = 128"
    using T [where position = 1] v(5) by simp
  show ?thesis
    using r rc p pc u by (simp add: v)
qed

text \<open>
  Claim C10 (\<open>read_chunk\<close> at end of stream). When the backend read returns the count -1,
  \<open>read_chunk\<close> returns the empty string and the chunk is unchanged; for any other count
  it stores the marshalled slice in the chunk and returns the count as an integer.
\<close>

theorem read_chunk_end_of_stream:
  assumes "\<not> not_input h"
    and "stream_read b (the (file_stream h)) (replicate (chunk_len c) 0) s = (Inr (n, buf), s1)"
  shows "read_chunk b h c s =
    (if n = - 1 then (Inr (PyStr [], c), s1)
     else (Inr (PyInt n, c\<lparr>chunk_value := map unsigned_chr (py_slice_to buf n)\<rparr>), s1))"
  using assms by (simp add: read_chunk_eq)

theorem read_chunk_end_of_stream_witness:
  "read_chunk (file_streams []) (CoreHdfsFile_init 0 (Some (JObject 0)) INPUT)
        \<lparr>chunk_len = 4, chunk_value = ''abcd''\<rparr> []
     = (Inr (PyStr [], \<lparr>chunk_len = 4, chunk_value = ''abcd''\<rparr>), [ReadCall (JObject 0) 4])
   \<and> read_chunk (file_streams [104, 105]) (CoreHdfsFile_init 0 (Some (JObject 0)) INPUT)
        \<lparr>chunk_len = 4, chunk_value = ''abcd''\<rparr> []
     = (Inr (PyInt 2, \<lparr>chunk_len = 4, chunk_value = ''hi''\<rparr>), [ReadCall (JObject 0) 4])"
proof -
  have e: "stream_read (file_streams []) (the (file_stream (CoreHdfsFile_init 0 (Some (JObject 0)) INPUT)))
             (replicate (chunk_len \<lparr>chunk_len = 4, chunk_value = ''abcd''\<rparr>) 0) []
           = (Inr (- 1, [0, 0, 0, 0]), [ReadCall (JObject 0) 4])"
    by code_simp
  have d: "stream_read (file_streams [104, 105]) (the (file_stream (CoreHdfsFile_init 0 (Some (JObject 0)) INPUT)))
             (replicate (chunk_len \<lparr>chunk_len = 4, chunk_value = ''abcd''\<rparr>) 0) []
           = (Inr (2, [104, 105, 0, 0]), [ReadCall (JObject 0) 4])"
    by code_simp
  have v: "map unsigned_chr (py_slice_to [104, 105, 0, 0] 2) = ''hi''"
    by code_simp
  show ?thesis
    using read_chunk_end_of_stream [OF input_handle e] read_chunk_end_of_stream [OF input_handle d]
    by (simp add: v)
qed

section \<open>Filesystem handle: auxiliary facts\<close>

lemma accmode_range: "0 \<le> flags AND O_ACCMODE \<and> flags AND O_ACCMODE \<le> 3"
proof -
  have m: "O_ACCMODE = 3"
    by (simp add: O_ACCMODE_def O_RDONLY_def O_RDWR_def O_WRONLY_def)
  have "0 \<le> flags AND (3::int)" by simp
  moreover have "flags AND (3::int) \<le> 3" by (rule AND_upper2) simp
  ultimately show ?thesis by (simp add: m)
qed

lemma str_int_3: "str_int 3 = ''3''"
  by (simp add: str_int_def digits.simps [of 3] digit_char_def)

lemma str_int_9000: "str_int 9000 = ''9000''"
  by (simp add: str_int_def digits.simps [of 9000] digits.simps [of 900] digits.simps [of 90]
      digits.simps [of 9] digit_char_def)

lemma get_jpath_info_status:
  assumes "get_jpath_info b self jpath None s = (Inr info, s1)"
    and "FileSystem_getFileStatus b (hdfs_fs self) jpath s = (Inr st, s0)"
  shows "info_owner info = getOwner st \<and> info_group info = getGroup st"
  using assms
  by (auto simp: get_jpath_info_def py_defs split: prod.splits sum.splits)

section \<open>Claims about the filesystem handle\<close>

text \<open>
  Claim C3 (timestamps are widened, nothing is lost). \<^verbatim>\<open>_get_jpath_info\<close> passes both
  timestamps through \<^verbatim>\<open>Long.valueOf(...).intValue()\<close>, which narrows the 64-bit value to
  32 bits. For a file whose modification and access time is 1400000000000 (milliseconds,
  a date in May 2014) the record holds -159338496 in \<open>last_mod\<close> and \<open>last_access\<close>.
\<close>

theorem timestamps_are_narrowed:
  "sint (file_mtime world0) = 1400000000000
   \<and> (case get_path_info memory_fs local_fs ''/f'' world0 of
        (Inr info, w) \<Rightarrow> info_last_mod info = - 159338496 \<and> info_last_access info = - 159338496
      | (Inl e, w) \<Rightarrow> False)"
  by code_simp

text \<open>
  Claim C5 (the three branches of connecting). Constructing the filesystem handle builds
  the \<^verbatim>\<open>Configuration\<close>, stores host, port, user and groups as given, and runs
  \<^verbatim>\<open>_connect\<close> on these attributes in the world that leaves. For every backend and every
  set of connection attributes \<^verbatim>\<open>_connect\<close> then does this: with an absent or empty host,
  whatever the port, the one backend call is \<^verbatim>\<open>FileSystem.getLocal\<close>; with host
  \<^verbatim>\<open>default\<close> and port 0 (a case the first excludes) the default URI is fetched and
  resolved; in every remaining case the URI \<^verbatim>\<open>hdfs://host:port\<close> is built and resolved.
  Both resolutions pass the user when it is neither absent nor empty, and use the
  two-argument form otherwise.
\<close>

theorem connect_three_branches:
  fixes b :: "'s fs_backend" and self :: connection
  defines "conf \<equiv> hdfs_configuration self"
    and "user \<equiv> (if none_or_empty (hdfs_user self) then None else hdfs_user self)"
  shows
   "CoreHdfsFs_init b host port usr groups t =
      (case new_Configuration b True t of
         (Inl m, t') \<Rightarrow> (Inl (JavaException m), t')
       | (Inr c, t') \<Rightarrow>
           connect b \<lparr>hdfs_host = host, hdfs_port = port, hdfs_user = usr, hdfs_groups = groups,
                       hdfs_configuration = c\<rparr> t')
  \<and> (none_or_empty (hdfs_host self) \<longrightarrow>
       connect b self s =
         (case FileSystem_getLocal b conf s of
            (Inl m, s') \<Rightarrow> (Inl (JavaException m), s')
          | (Inr fs, s') \<Rightarrow>
              (Inr (connection.extend self \<lparr>hdfs_fs = fs, hdfs_fs_uri = None\<rparr>), s')))
  \<and> (hdfs_host self = Some ''default'' \<and> hdfs_port self = 0 \<longrightarrow>
       \<not> none_or_empty (hdfs_host self) \<and>
       connect b self s =
         (case FileSystem_getDefaultUri b conf s of
            (Inl m, s') \<Rightarrow> (Inl (JavaException m), s')
          | (Inr uri, s') \<Rightarrow>
              (case FileSystem_get b uri conf user s' of
                 (Inl m, s'') \<Rightarrow> (Inl (JavaException m), s'')
               | (Inr fs, s'') \<Rightarrow>
                   (Inr (connection.extend self \<lparr>hdfs_fs = fs, hdfs_fs_uri = Some uri\<rparr>), s''))))
  \<and> (\<not> none_or_empty (hdfs_host self) \<and> \<not> (hdfs_host self = Some ''default'' \<and> hdfs_port self = 0)
       \<longrightarrow>
       connect b self s =
         (case URI_create b (''hdfs://'' @ the (hdfs_host self) @ '':'' @ str_int (hdfs_port self)) s of
            (Inl m, s') \<Rightarrow> (Inl (JavaException m), s')
          | (Inr uri, s') \<Rightarrow>
              (case FileSystem_get b uri conf user s' of
                 (Inl m, s'') \<Rightarrow> (Inl (JavaException m), s'')
               | (Inr fs, s'') \<Rightarrow>
                   (Inr (connection.extend self \<lparr>hdfs_fs = fs, hdfs_fs_uri = Some uri\<rparr>), s''))))"
proof (intro conjI impI)
  show "CoreHdfsFs_init b host port usr groups t =
      (case new_Configuration b True t of
         (Inl m, t') \<Rightarrow> (Inl (JavaException m), t')
       | (Inr c, t') \<Rightarrow>
           connect b \<lparr>hdfs_host = host, hdfs_port = port, hdfs_user = usr, hdfs_groups = groups,
                       hdfs_configuration = c\<rparr> t')"
    by (simp add: CoreHdfsFs_init_def py_bind_def jcall_def split: prod.splits sum.splits)
next
  assume "none_or_empty (hdfs_host self)"
  then show "connect b self s =
         (case FileSystem_getLocal b conf s of
            (Inl m, s') \<Rightarrow> (Inl (JavaException m), s')
          | (Inr fs, s') \<Rightarrow>
              (Inr (connection.extend self \<lparr>hdfs_fs = fs, hdfs_fs_uri = None\<rparr>), s'))"
  proof -
    assume g: "none_or_empty (hdfs_host self)"
    have c: "connect b self =
        py_bind (jcall (FileSystem_getLocal b conf)) (\<lambda>fs.
        py_return (connection.extend self \<lparr>hdfs_fs = fs, hdfs_fs_uri = None\<rparr>))"
      unfolding connect_def conf_def using g by (simp only: if_True)
    show ?thesis
      unfolding c by (simp add: py_defs split: prod.splits sum.splits)
  qed
next
  assume d: "hdfs_host self = Some ''default'' \<and> hdfs_port self = 0"
  then show ne: "\<not> none_or_empty (hdfs_host self)"
    by (simp add: none_or_empty_def)
  show "connect b self s =
         (case FileSystem_getDefaultUri b conf s of
            (Inl m, s') \<Rightarrow> (Inl (JavaException m), s')
          | (Inr uri, s') \<Rightarrow>
              (case FileSystem_get b uri conf user s' of
                 (Inl m, s'') \<Rightarrow> (Inl (JavaException m), s'')
               | (Inr fs, s'') \<Rightarrow>
                   (Inr (connection.extend self \<lparr>hdfs_fs = fs, hdfs_fs_uri = Some uri\<rparr>), s'')))"
  proof -
    have c: "connect b self =
        py_bind (jcall (FileSystem_getDefaultUri b conf)) (\<lambda>fs_uri.
        py_bind (jcall (FileSystem_get b fs_uri conf user)) (\<lambda>fs.
        py_return (connection.extend self \<lparr>hdfs_fs = fs, hdfs_fs_uri = Some fs_uri\<rparr>)))"
      unfolding connect_def conf_def user_def using d ne by (simp only: if_True if_False simp_thms)
    show ?thesis
      unfolding c by (simp add: py_defs split: prod.splits sum.splits)
  qed
next
  assume "\<not> none_or_empty (hdfs_host self) \<and> \<not> (hdfs_host self = Some ''default'' \<and> hdfs_port self = 0)"
  then show "connect b self s =
         (case URI_create b (''hdfs://'' @ the (hdfs_host self) @ '':'' @ str_int (hdfs_port self)) s of
            (Inl m, s') \<Rightarrow> (Inl (JavaException m), s')
          | (Inr uri, s') \<Rightarrow>
              (case FileSystem_get b uri conf user s' of
                 (Inl m, s'') \<Rightarrow> (Inl (JavaException m), s'')
               | (Inr fs, s'') \<Rightarrow>
                   (Inr (connection.extend self \<lparr>hdfs_fs = fs, hdfs_fs_uri = Some uri\<rparr>), s'')))"
  proof -
    assume g: "\<not> none_or_empty (hdfs_host self) \<and> \<not> (hdfs_host self = Some ''default'' \<and> hdfs_port self = 0)"
    then have c: "connect b self =
        py_bind (jcall (URI_create b (''hdfs://'' @ the (hdfs_host self) @ '':'' @ str_int (hdfs_port self)))) (\<lambda>fs_uri.
        py_bind (jcall (FileSystem_get b fs_uri conf user)) (\<lambda>fs.
        py_return (connection.extend self \<lparr>hdfs_fs = fs, hdfs_fs_uri = Some fs_uri\<rparr>)))"
      unfolding connect_def Let_def conf_def user_def by (simp only: if_False simp_thms)
    show ?thesis
      unfolding c by (simp add: py_defs split: prod.splits sum.splits)
  qed
qed

theorem connect_three_branches_witness:
  "CoreHdfsFs_init memory_fs (Some []) 7 (Some ''alice'') None world0
     = (Inr \<lparr>hdfs_host = Some [], hdfs_port = 7, hdfs_user = Some ''alice'',
              hdfs_groups = None, hdfs_configuration = JObject 0,
              hdfs_fs = JObject 1, hdfs_fs_uri = None\<rparr>,
        world0\<lparr>calls := [NewConfiguration True, GetLocal (JObject 0)]\<rparr>)
   \<and> CoreHdfsFs_init memory_fs (Some ''default'') 0 (Some ''alice'') None world0
     = (Inr \<lparr>hdfs_host = Some ''default'', hdfs_port = 0, hdfs_user = Some ''alice'',
              hdfs_groups = None, hdfs_configuration = JObject 0,
              hdfs_fs = JObject 3, hdfs_fs_uri = Some (JObject 2)\<rparr>,
        world0\<lparr>calls := [NewConfiguration True, GetDefaultUri (JObject 0),
                          Get (JObject 2) (JObject 0) (Some ''alice'')]\<rparr>)
   \<and> CoreHdfsFs_init memory_fs (Some ''node1'') 9000 None None world0
     = (Inr \<lparr>hdfs_host = Some ''node1'', hdfs_port = 9000, hdfs_user = None,
              hdfs_groups = None, hdfs_configuration = JObject 0,
              hdfs_fs = JObject 3, hdfs_fs_uri = Some (JObject 4)\<rparr>,
        world0\<lparr>calls := [NewConfiguration True, UriCreate ''hdfs://node1:9000'',
                          Get (JObject 4) (JObject 0) None]\<rparr>)"
proof -
  let ?A = "\<lparr>hdfs_host = Some [], hdfs_port = 7, hdfs_user = Some ''alice'',
       hdfs_groups = None, hdfs_configuration = JObject 0\<rparr>"
  let ?B = "\<lparr>hdfs_host = Some ''default'', hdfs_port = 0, hdfs_user = Some ''alice'',
       hdfs_groups = None, hdfs_configuration = JObject 0\<rparr>"
  let ?C = "\<lparr>hdfs_host = Some ''node1'', hdfs_port = 9000, hdfs_user = None,
       hdfs_groups = None, hdfs_configuration = JObject 0\<rparr>"
  let ?w = "world0\<lparr>calls := [NewConfiguration True]\<rparr>"
  have nc: "new_Configuration memory_fs True world0 = (Inr (JObject 0), ?w)"
    by code_simp
  have ga: "none_or_empty (hdfs_host ?A)"
    by (simp add: none_or_empty_def)
  have gb: "hdfs_host ?B = Some ''default'' \<and> hdfs_port ?B = 0"
    by simp
  have gc: "\<not> none_or_empty (hdfs_host ?C)
      \<and> \<not> (hdfs_host ?C = Some ''default'' \<and> hdfs_port ?C = 0)"
    by (simp add: none_or_empty_def)
  note TA = connect_three_branches [where b = memory_fs and self = "?A" and s = "?w"
      and host = "Some []" and port = 7 and usr = "Some ''alice''" and groups = None
      and t = world0]
  note TB = connect_three_branches [where b = memory_fs and self = "?B" and s = "?w"
      and host = "Some ''default''" and port = 0 and usr = "Some ''alice''" and groups = None
      and t = world0]
  note TC = connect_three_branches [where b = memory_fs and self = "?C" and s = "?w"
      and host = "Some ''node1''" and port = 9000 and usr = None and groups = None
      and t = world0]
  have ia: "CoreHdfsFs_init memory_fs (Some []) 7 (Some ''alice'') None world0
              = connect memory_fs ?A ?w"
    using TA [THEN conjunct1] by (simp add: nc)
  have ib: "CoreHdfsFs_init memory_fs (Some ''default'') 0 (Some ''alice'') None world0
              = connect memory_fs ?B ?w"
    using TB [THEN conjunct1] by (simp add: nc)
  have ic: "CoreHdfsFs_init memory_fs (Some ''node1'') 9000 None None world0
              = connect memory_fs ?C ?w"
    using TC [THEN conjunct1] by (simp add: nc)
  note a = TA [THEN conjunct2, THEN conjunct1, THEN mp, OF ga]
  note b = TB [THEN conjunct2, THEN conjunct2, THEN conjunct1, THEN mp, OF gb, THEN conjunct2]
  note c = TC [THEN conjunct2, THEN conjunct2, THEN conjunct2, THEN mp, OF gc]
  have "CoreHdfsFs_init memory_fs (Some []) 7 (Some ''alice'') None world0
     = (Inr \<lparr>hdfs_host = Some [], hdfs_port = 7, hdfs_user = Some ''alice'',
              hdfs_groups = None, hdfs_configuration = JObject 0,
              hdfs_fs = JObject 1, hdfs_fs_uri = None\<rparr>,
        world0\<lparr>calls := [NewConfiguration True, GetLocal (JObject 0)]\<rparr>)"
    unfolding ia a by code_simp
  moreover have "CoreHdfsFs_init memory_fs (Some ''default'') 0 (Some ''alice'') None world0
     = (Inr \<lparr>hdfs_host = Some ''default'', hdfs_port = 0, hdfs_user = Some ''alice'',
              hdfs_groups = None, hdfs_configuration = JObject 0,
              hdfs_fs = JObject 3, hdfs_fs_uri = Some (JObject 2)\<rparr>,
        world0\<lparr>calls := [NewConfiguration True, GetDefaultUri (JObject 0),
                          Get (JObject 2) (JObject 0) (Some ''alice'')]\<rparr>)"
    unfolding ib b by code_simp
  moreover have "CoreHdfsFs_init memory_fs (Some ''node1'') 9000 None None world0
     = (Inr \<lparr>hdfs_host = Some ''node1'', hdfs_port = 9000, hdfs_user = None,
              hdfs_groups = None, hdfs_configuration = JObject 0,
              hdfs_fs = JObject 3, hdfs_fs_uri = Some (JObject 4)\<rparr>,
        world0\<lparr>calls := [NewConfiguration True, UriCreate ''hdfs://node1:9000'',
                          Get (JObject 4) (JObject 0) None]\<rparr>)"
    unfolding ic c by (simp add: str_int_9000, code_simp)
  ultimately show ?thesis
    by (intro conjI)
qed

text \<open>
  Claim C6 (unsupported access modes). When the access mode masked out of the flags is
  neither write-only nor read-only, \<^verbatim>\<open>open_file\<close> raises IOError, naming the read-write
  mode or else the mode 3 (the only other value the mask leaves), whatever the other
  flag bits and arguments are; the world is as before, so no backend call was made and
  no stream was opened.
\<close>

theorem open_file_rejects_accmode:
  assumes "flags AND O_ACCMODE \<noteq> O_WRONLY" and "flags AND O_ACCMODE \<noteq> O_RDONLY"
  shows "open_file b self path flags buff_size replication blocksize s =
    (Inl (IOError (if flags AND O_ACCMODE = O_RDWR
                   then ''Cannot open an hdfs file in O_RDWR mode''
                   else ''Cannot open an hdfs file in mode 3'')), s)"
proof -
  have "flags AND O_ACCMODE = 2 \<or> flags AND O_ACCMODE = 3"
    using assms accmode_range [of flags] unfolding O_WRONLY_def O_RDONLY_def by arith
  then show ?thesis
    using assms
    by (auto simp: open_file_def Let_def py_raise_def O_RDWR_def str_int_3)
qed

theorem open_file_rejects_accmode_witness:
  "(1026::int) AND O_ACCMODE \<noteq> O_WRONLY \<and> (1026::int) AND O_ACCMODE \<noteq> O_RDONLY
   \<and> open_file memory_fs local_fs ''/f'' 1026 0 1 0 world0
       = (Inl (IOError ''Cannot open an hdfs file in O_RDWR mode''), world0)
   \<and> open_file memory_fs local_fs ''/f'' 3 0 1 0 world0
       = (Inl (IOError ''Cannot open an hdfs file in mode 3''), world0)"
proof -
  have a: "(1026::int) AND O_ACCMODE = 2" "(3::int) AND O_ACCMODE = 3"
    by (simp_all add: O_ACCMODE_def O_RDONLY_def O_RDWR_def O_WRONLY_def)
  have h: "(1026::int) AND O_ACCMODE \<noteq> O_WRONLY" "(1026::int) AND O_ACCMODE \<noteq> O_RDONLY"
     "(3::int) AND O_ACCMODE \<noteq> O_WRONLY" "(3::int) AND O_ACCMODE \<noteq> O_RDONLY"
    by (simp_all add: a O_WRONLY_def O_RDONLY_def)
  show ?thesis
    using open_file_rejects_accmode [OF h(1,2), of memory_fs local_fs "''/f''" 0 1 0 world0]
      open_file_rejects_accmode [OF h(3,4), of memory_fs local_fs "''/f''" 0 1 0 world0] h
    by (simp add: a O_RDWR_def)
qed

text \<open>
  Claim C7 (\<^verbatim>\<open>chown\<close> fills the absent value from the current metadata). With user and
  group both absent or empty \<^verbatim>\<open>chown\<close> raises, having made no backend call. Otherwise,
  for a non-empty path whose status the backend returns, the metadata is fetched first
  and \<^verbatim>\<open>setOwner\<close> is called in the world the fetch leaves, with the given user and group,
  each replaced by the owner or group of the fetched status when absent or empty.
\<close>

theorem chown_fills_absent_from_current:
  "(none_or_empty user \<and> none_or_empty grp \<longrightarrow>
      chown b self path user grp s =
        (Inl (Exception ''Both owner and group cannot be null in chown''), s))
 \<and> (\<not> (none_or_empty user \<and> none_or_empty grp) \<and> path \<noteq> []
      \<and> FileSystem_getFileStatus b (hdfs_fs self) (Path path) s = (Inr st, s0)
      \<and> get_jpath_info b self (Path path) None s = (Inr info, s1) \<longrightarrow>
      info_owner info = getOwner st \<and> info_group info = getGroup st
      \<and> chown b self path user grp s =
          jcall (FileSystem_setOwner b (hdfs_fs self) (Path path)
                   (if none_or_empty user then getOwner st else the user)
                   (if none_or_empty grp then getGroup st else the grp)) s1)"
proof (intro conjI impI)
  assume "none_or_empty user \<and> none_or_empty grp"
  then show "chown b self path user grp s =
        (Inl (Exception ''Both owner and group cannot be null in chown''), s)"
    by (simp add: chown_def py_raise_def)
next
  assume h: "\<not> (none_or_empty user \<and> none_or_empty grp) \<and> path \<noteq> []
      \<and> FileSystem_getFileStatus b (hdfs_fs self) (Path path) s = (Inr st, s0)
      \<and> get_jpath_info b self (Path path) None s = (Inr info, s1)"
  then have i: "info_owner info = getOwner st \<and> info_group info = getGroup st"
    using get_jpath_info_status [of b self "Path path" s info s1 st s0] by simp
  from i show "info_owner info = getOwner st" "info_group info = getGroup st"
    by simp_all
  from h have ne: "\<not> (none_or_empty user \<and> none_or_empty grp)" and p: "path \<noteq> []"
    and g: "get_jpath_info b self (Path path) None s = (Inr info, s1)"
    by simp_all
  have "chown b self path user grp s =
          jcall (FileSystem_setOwner b (hdfs_fs self) (Path path)
                   (if none_or_empty user then info_owner info else the user)
                   (if none_or_empty grp then info_group info else the grp)) s1"
    using ne p g
    by (auto simp: chown_def get_jpath_def py_bind_def py_return_def Let_def)
  with i show "chown b self path user grp s =
          jcall (FileSystem_setOwner b (hdfs_fs self) (Path path)
                   (if none_or_empty user then getOwner st else the user)
                   (if none_or_empty grp then getGroup st else the grp)) s1"
    by simp
qed

theorem chown_fills_absent_from_current_witness:
  "chown memory_fs local_fs ''/f'' None (Some []) world0
     = (Inl (Exception ''Both owner and group cannot be null in chown''), world0)
   \<and> chown memory_fs local_fs ''/f'' (Some ''alice'') (Some []) world0
     = (Inr (),
        \<lparr> file_owner = ''alice'', file_group = ''staff'', file_mtime = 1400000000000,
          calls = [GetFileStatus (JObject 1) (Path ''/f''), IsDirectory (JObject 1) (Path ''/f''),
                   GetBlockSize (JObject 1) (Path ''/f''), GetUri (JObject 1),
                   SetOwner (JObject 1) (Path ''/f'') ''alice'' ''staff''] \<rparr>)
   \<and> file_group world0 = ''staff''"
proof -
  let ?st = "\<lparr> getPath = Path ''/f'', getGroup = ''staff'', getOwner = ''bob'',
      getModificationTime = 1400000000000, getAccessTime = 1400000000000,
      getReplication = 3, getPermission_toShort = 420, getLen = 0 \<rparr>"
  let ?s0 = "world0\<lparr>calls := [GetFileStatus (JObject 1) (Path ''/f'')]\<rparr>"
  let ?info = "\<lparr> info_name = ''/f'', info_kind = ''file'', info_group = ''staff'',
      info_last_mod = - 159338496, info_last_access = - 159338496,
      info_replication = 3, info_owner = ''bob'', info_permissions = 420,
      info_block_size = 134217728, info_path = ''/f'',
      info_fs_uri = ''file:///'', info_depth = 1, info_size = 0,
      info_absolute = True, info_parent = None \<rparr>"
  let ?s1 = "world0\<lparr>calls := [GetFileStatus (JObject 1) (Path ''/f''),
      IsDirectory (JObject 1) (Path ''/f''), GetBlockSize (JObject 1) (Path ''/f''),
      GetUri (JObject 1)]\<rparr>"
  have f: "FileSystem_getFileStatus memory_fs (hdfs_fs local_fs) (Path ''/f'') world0
             = (Inr ?st, ?s0)"
    by code_simp
  have g: "get_jpath_info memory_fs local_fs (Path ''/f'') None world0 = (Inr ?info, ?s1)"
    by code_simp
  have both: "none_or_empty None \<and> none_or_empty (Some [])"
    by (simp add: none_or_empty_def)
  have one: "\<not> (none_or_empty (Some ''alice'') \<and> none_or_empty (Some []))
      \<and> ''/f'' \<noteq> []
      \<and> FileSystem_getFileStatus memory_fs (hdfs_fs local_fs) (Path ''/f'') world0 = (Inr ?st, ?s0)
      \<and> get_jpath_info memory_fs local_fs (Path ''/f'') None world0 = (Inr ?info, ?s1)"
    using f g by (simp add: none_or_empty_def)
  note a = chown_fills_absent_from_current [of None "Some []" memory_fs local_fs "''/f''" world0,
      THEN conjunct1, THEN mp, OF both]
  note b = chown_fills_absent_from_current [of "Some ''alice''" "Some []" memory_fs local_fs
      "''/f''" world0 ?st ?s0 ?info ?s1, THEN conjunct2, THEN mp, OF one,
      THEN conjunct2, THEN conjunct2]
  have "chown memory_fs local_fs ''/f'' (Some ''alice'') (Some []) world0
     = (Inr (),
        \<lparr> file_owner = ''alice'', file_group = ''staff'', file_mtime = 1400000000000,
          calls = [GetFileStatus (JObject 1) (Path ''/f''), IsDirectory (JObject 1) (Path ''/f''),
                   GetBlockSize (JObject 1) (Path ''/f''), GetUri (JObject 1),
                   SetOwner (JObject 1) (Path ''/f'') ''alice'' ''staff''] \<rparr>)"
    unfolding b by code_simp
  moreover have "file_group world0 = ''staff''"
    by (simp add: world0_def)
  ultimately show ?thesis
    using a by (intro conjI)
qed

end
